theory Spec2Isabelle
  imports Main "HOL-Library.Sublist" "HOL-Library.AList"
begin

section \<open>Data model of autonotes.py\<close>

text \<open>
  The three dataclasses of the module, with the field types their annotations declare.
  A Python \<open>Optional[T]\<close> is a HOL \<open>option\<close>; \<open>None\<close> is \<open>None\<close>.
\<close>

record Folder =
  uuid :: string
  parent_uuid :: "string option"
  name :: string

record TriggerCondition =
  type :: string
  node_types :: "string list option"
  node_type :: "string option"
  attribute_name :: "string option"
  attribute_values :: "string list option"
  workflow_names :: "string list option"

record Note =
  uuid :: string
  folder_uuid :: "string option"
  content :: string
  format_style :: string
  trigger_conditions :: "TriggerCondition list"
  pinned :: bool
  name :: string
  tags :: "string list"

text \<open>
  \<open>Folder\<close> and \<open>Note\<close> both have fields \<open>uuid\<close> and \<open>name\<close>. \<open>Note\<close>, declared last, owns
  the short names; the folder's fields are written \<open>Folder.uuid\<close> and \<open>Folder.name\<close>.
\<close>

text \<open>
  A Python \<open>dict\<close> keeps its keys in insertion order, and \<open>values()\<close> iterates in
  that order: the order is observable in \<open>get_notes_for_display\<close>, so the manager's
  dictionaries are association lists. \<open>d[k] = v\<close> is \<open>AList.update k v d\<close> (an existing key
  keeps its position, a new key goes last), \<open>del d[k]\<close> is \<open>AList.delete k d\<close>, \<open>k in d\<close> is
  \<open>k \<in> fst ` set d\<close>.
\<close>

type_synonym ('k, 'v) dict = "('k \<times> 'v) list"

definition dict_values :: "('k, 'v) dict \<Rightarrow> 'v list" where
  "dict_values d = map snd d"

section \<open>The matcher\<close>

text \<open>
  \<open>_check_trigger_condition\<close>. The runtime context is passed as the method's four
  arguments. The two attribute dictionaries are only queried (\<open>in\<close>, \<open>[]\<close>), so they are maps;
  their values have the Python type \<open>Any\<close> and are only ever passed to the builtin \<open>str\<close>, which
  is the parameter \<open>str\<close> here (for a Python string \<open>s\<close>, \<open>str(s)\<close> is \<open>s\<close>). \<open>workflow_nodes\<close>
  maps a node type to that node's attribute dictionary.

  Python's \<open>a in b\<close> on two strings is contiguous containment, \<open>sublist a b\<close>; on a list \<open>b\<close>
  it is membership; on a dictionary with string keys it is key membership, and \<open>None in d\<close>
  is \<open>False\<close> there. \<open>any(... for x in xs)\<close> is \<open>list_ex\<close>. A branch of the
  \<open>if\<close>/\<open>elif\<close> chain whose guard fails falls through to the final \<open>return False\<close>.
\<close>

definition check_trigger_condition ::
  "('v \<Rightarrow> string) \<Rightarrow> TriggerCondition \<Rightarrow> string option \<Rightarrow> (string \<rightharpoonup> 'v) option \<Rightarrow>
     string option \<Rightarrow> (string \<rightharpoonup> (string \<rightharpoonup> 'v)) option \<Rightarrow> bool" where
  "check_trigger_condition str condition selected_node_type selected_node_attributes
       workflow_name workflow_nodes =
    (if type condition = ''node_selected'' then
       (case selected_node_type of None \<Rightarrow> False
        | Some snt \<Rightarrow>
          (case node_types condition of None \<Rightarrow> False
           | Some nts \<Rightarrow> snt \<in> set nts))
     else if type condition = ''node_selected_attribute'' then
       (if selected_node_type = node_type condition then
          (case selected_node_attributes of None \<Rightarrow> False
           | Some attrs \<Rightarrow>
             (case attribute_name condition of None \<Rightarrow> False
              | Some an \<Rightarrow>
                (case attrs an of None \<Rightarrow> False
                 | Some v \<Rightarrow>
                   (case attribute_values condition of None \<Rightarrow> False
                    | Some vals \<Rightarrow> list_ex (\<lambda>val. sublist val (str v)) vals))))
        else False)
     else if type condition = ''node_in_workflow'' then
       (case workflow_nodes of None \<Rightarrow> False
        | Some nodes \<Rightarrow>
          (case node_types condition of None \<Rightarrow> False
           | Some nts \<Rightarrow> list_ex (\<lambda>nt. nodes nt \<noteq> None) nts))
     else if type condition = ''node_in_workflow_attribute'' then
       (case workflow_nodes of None \<Rightarrow> False
        | Some nodes \<Rightarrow>
          (case node_type condition of None \<Rightarrow> False
           | Some nt \<Rightarrow>
             (case attribute_name condition of None \<Rightarrow> False
              | Some an \<Rightarrow>
                (case nodes nt of None \<Rightarrow> False
                 | Some node_attrs \<Rightarrow>
                   (case node_attrs an of None \<Rightarrow> False
                    | Some v \<Rightarrow>
                      (case attribute_values condition of
                         Some (val # vals) \<Rightarrow>
                           list_ex (\<lambda>val. sublist val (str v)) (val # vals)
                       | _ \<Rightarrow> True))))))
     else if type condition = ''workflow_name'' then
       (case workflow_name of None \<Rightarrow> False
        | Some wn \<Rightarrow>
          (case workflow_names condition of None \<Rightarrow> False
           | Some names \<Rightarrow> list_ex (\<lambda>name. sublist name wn) names))
     else False)"

text \<open>
  \<open>get_notes_for_display\<close>, over the \<open>notes\<close> dictionary of the manager. The inner
  \<open>for\<close> loop stops at the first condition that matches (\<open>break\<close>); the outer loop appends
  to \<open>matching_notes\<close>, the accumulator.
\<close>

fun conditions_loop :: "(TriggerCondition \<Rightarrow> bool) \<Rightarrow> TriggerCondition list \<Rightarrow> bool" where
  "conditions_loop check [] = False"
| "conditions_loop check (condition # rest) =
     (if check condition then True else conditions_loop check rest)"

fun notes_loop :: "(TriggerCondition \<Rightarrow> bool) \<Rightarrow> Note list \<Rightarrow> Note list \<Rightarrow> Note list" where
  "notes_loop check [] matching_notes = matching_notes"
| "notes_loop check (note # rest) matching_notes =
     (if pinned note then notes_loop check rest (matching_notes @ [note])
      else if conditions_loop check (trigger_conditions note)
        then notes_loop check rest (matching_notes @ [note])
        else notes_loop check rest matching_notes)"

definition get_notes_for_display ::
  "('v \<Rightarrow> string) \<Rightarrow> (string, Note) dict \<Rightarrow> string \<Rightarrow> string option \<Rightarrow> (string \<rightharpoonup> 'v) option \<Rightarrow>
     string option \<Rightarrow> (string \<rightharpoonup> (string \<rightharpoonup> 'v)) option \<Rightarrow> Note list" where
  "get_notes_for_display str notes mode selected_node_type selected_node_attributes
       workflow_name workflow_nodes =
    (if mode = ''all'' then dict_values notes
     else notes_loop
       (\<lambda>condition. check_trigger_condition str condition selected_node_type
          selected_node_attributes workflow_name workflow_nodes)
       (dict_values notes) [])"

section \<open>The store\<close>

subsection \<open>JSON values and outcomes\<close>

text \<open>
  What \<open>json.load\<close> returns and \<open>json.dump\<close> takes: \<open>None\<close>, booleans, numbers, strings,
  lists, and dictionaries with string keys (their keys distinct, in insertion order).
\<close>

datatype json =
  JNull
| JBool bool
| JNum int
| JStr string
| JArr "json list"
| JObj "(string \<times> json) list"

text \<open>
  A call returns a value or raises. Python does not check a value against the annotation of
  the field it is stored in, while the records above carry the annotated types; where the
  source would store a value of another type, the model stops with \<open>Untyped\<close> and says
  nothing about what follows.
\<close>

datatype exn = TypeError | AttributeError

datatype 'a outcome = Returns 'a | Raises exn | Untyped

fun and_then :: "'a outcome \<Rightarrow> ('a \<Rightarrow> 'b outcome) \<Rightarrow> 'b outcome" where
  "and_then (Returns x) f = f x"
| "and_then (Raises e) f = Raises e"
| "and_then Untyped f = Untyped"

text \<open>
  \<open>for x in v\<close> over a JSON value: a list yields its elements, a dictionary its keys, a string
  its characters (as one-character strings); anything else is not iterable.
\<close>

fun iterate :: "json \<Rightarrow> json list outcome" where
  "iterate (JArr xs) = Returns xs"
| "iterate (JObj kw) = Returns (map (\<lambda>(k, v). JStr k) kw)"
| "iterate (JStr s) = Returns (map (\<lambda>c. JStr [c]) s)"
| "iterate v = Raises TypeError"

subsection \<open>Records to JSON: \<open>asdict\<close>\<close>

definition json_of_opt_str :: "string option \<Rightarrow> json" where
  "json_of_opt_str x = (case x of None \<Rightarrow> JNull | Some s \<Rightarrow> JStr s)"

definition json_of_strs :: "string list \<Rightarrow> json" where
  "json_of_strs xs = JArr (map JStr xs)"

definition json_of_opt_strs :: "string list option \<Rightarrow> json" where
  "json_of_opt_strs x = (case x of None \<Rightarrow> JNull | Some xs \<Rightarrow> json_of_strs xs)"

definition asdict_TriggerCondition :: "TriggerCondition \<Rightarrow> json" where
  "asdict_TriggerCondition tc = JObj
     [(''type'', JStr (type tc)),
      (''node_types'', json_of_opt_strs (node_types tc)),
      (''node_type'', json_of_opt_str (node_type tc)),
      (''attribute_name'', json_of_opt_str (attribute_name tc)),
      (''attribute_values'', json_of_opt_strs (attribute_values tc)),
      (''workflow_names'', json_of_opt_strs (workflow_names tc))]"

definition asdict_Note :: "Note \<Rightarrow> json" where
  "asdict_Note note = JObj
     [(''uuid'', JStr (uuid note)),
      (''folder_uuid'', json_of_opt_str (folder_uuid note)),
      (''content'', JStr (content note)),
      (''format_style'', JStr (format_style note)),
      (''trigger_conditions'', JArr (map asdict_TriggerCondition (trigger_conditions note))),
      (''pinned'', JBool (pinned note)),
      (''name'', JStr (name note)),
      (''tags'', json_of_strs (tags note))]"

definition asdict_Folder :: "Folder \<Rightarrow> json" where
  "asdict_Folder folder = JObj
     [(''uuid'', JStr (Folder.uuid folder)),
      (''parent_uuid'', json_of_opt_str (parent_uuid folder)),
      (''name'', JStr (Folder.name folder))]"

subsection \<open>JSON to records: the dataclass constructors\<close>

text \<open>Reading a JSON value at an annotated type; \<open>None\<close> when the value has another type.\<close>

fun str_of_json :: "json \<Rightarrow> string option" where
  "str_of_json (JStr s) = Some s"
| "str_of_json v = None"

fun bool_of_json :: "json \<Rightarrow> bool option" where
  "bool_of_json (JBool b) = Some b"
| "bool_of_json v = None"

fun opt_str_of_json :: "json \<Rightarrow> string option option" where
  "opt_str_of_json JNull = Some None"
| "opt_str_of_json (JStr s) = Some (Some s)"
| "opt_str_of_json v = None"

fun strs_of_json :: "json \<Rightarrow> string list option" where
  "strs_of_json (JArr xs) = those (map str_of_json xs)"
| "strs_of_json v = None"

fun opt_strs_of_json :: "json \<Rightarrow> string list option option" where
  "opt_strs_of_json JNull = Some None"
| "opt_strs_of_json v = map_option Some (strs_of_json v)"

text \<open>A keyword argument, or the parameter's default when the keyword is not given.\<close>

definition kwarg :: "(string \<times> json) list \<Rightarrow> string \<Rightarrow> json \<Rightarrow> json" where
  "kwarg kw key absent = (case map_of kw key of None \<Rightarrow> absent | Some v \<Rightarrow> v)"

definition TriggerCondition_fields :: "string list" where
  "TriggerCondition_fields =
     [''type'', ''node_types'', ''node_type'', ''attribute_name'', ''attribute_values'',
      ''workflow_names'']"

definition Note_fields :: "string list" where
  "Note_fields =
     [''uuid'', ''folder_uuid'', ''content'', ''format_style'', ''trigger_conditions'',
      ''pinned'', ''name'', ''tags'']"

definition Folder_fields :: "string list" where
  "Folder_fields = [''uuid'', ''parent_uuid'', ''name'']"

text \<open>
  \<open>TriggerCondition(**tc_data)\<close>: \<open>TypeError\<close> when \<open>tc_data\<close> is not a mapping, has a key
  that is no field, or lacks \<open>type\<close>, the only field without a default.
\<close>

definition new_TriggerCondition :: "json \<Rightarrow> TriggerCondition outcome" where
  "new_TriggerCondition tc_data =
    (case tc_data of
       JObj kw \<Rightarrow>
         if \<not> set (map fst kw) \<subseteq> set TriggerCondition_fields then Raises TypeError
         else if ''type'' \<notin> set (map fst kw) then Raises TypeError
         else
           (case (str_of_json (kwarg kw ''type'' JNull),
                  opt_strs_of_json (kwarg kw ''node_types'' JNull),
                  opt_str_of_json (kwarg kw ''node_type'' JNull),
                  opt_str_of_json (kwarg kw ''attribute_name'' JNull),
                  opt_strs_of_json (kwarg kw ''attribute_values'' JNull),
                  opt_strs_of_json (kwarg kw ''workflow_names'' JNull)) of
              (Some t, Some nts, Some nt, Some an, Some avs, Some wns) \<Rightarrow>
                Returns \<lparr>type = t, node_types = nts, node_type = nt, attribute_name = an,
                  attribute_values = avs, workflow_names = wns\<rparr>
            | _ \<Rightarrow> Untyped)
     | _ \<Rightarrow> Raises TypeError)"

text \<open>
  \<open>Note(**note_data)\<close> after \<open>note_data['trigger_conditions'] = trigger_conditions\<close>: the
  conditions are passed apart, the other keywords are those of the JSON dictionary.
  \<open>pinned\<close>, \<open>name\<close> and \<open>tags\<close> have defaults, and \<open>__post_init__\<close> turns a \<open>tags\<close> of \<open>None\<close>
  into the empty list.
\<close>

definition new_Note :: "TriggerCondition list \<Rightarrow> (string \<times> json) list \<Rightarrow> Note outcome" where
  "new_Note tcs kw =
    (if \<not> set (map fst kw) \<subseteq> set Note_fields then Raises TypeError
     else if \<not> set [''uuid'', ''folder_uuid'', ''content'', ''format_style''] \<subseteq> set (map fst kw)
       then Raises TypeError
     else
       (case (str_of_json (kwarg kw ''uuid'' JNull),
              opt_str_of_json (kwarg kw ''folder_uuid'' JNull),
              str_of_json (kwarg kw ''content'' JNull),
              str_of_json (kwarg kw ''format_style'' JNull),
              bool_of_json (kwarg kw ''pinned'' (JBool False)),
              str_of_json (kwarg kw ''name'' (JStr [])),
              opt_strs_of_json (kwarg kw ''tags'' JNull)) of
          (Some u, Some fu, Some c, Some fs, Some p, Some n, Some ts) \<Rightarrow>
            Returns \<lparr>uuid = u, folder_uuid = fu, content = c, format_style = fs,
              trigger_conditions = tcs, pinned = p, name = n,
              tags = (case ts of None \<Rightarrow> [] | Some xs \<Rightarrow> xs)\<rparr>
        | _ \<Rightarrow> Untyped))"

definition new_Folder :: "json \<Rightarrow> Folder outcome" where
  "new_Folder folder_data =
    (case folder_data of
       JObj kw \<Rightarrow>
         if \<not> set (map fst kw) \<subseteq> set Folder_fields then Raises TypeError
         else if \<not> set Folder_fields \<subseteq> set (map fst kw) then Raises TypeError
         else
           (case (str_of_json (kwarg kw ''uuid'' JNull),
                  opt_str_of_json (kwarg kw ''parent_uuid'' JNull),
                  str_of_json (kwarg kw ''name'' JNull)) of
              (Some u, Some pu, Some n) \<Rightarrow>
                Returns \<lparr>Folder.uuid = u, parent_uuid = pu, Folder.name = n\<rparr>
            | _ \<Rightarrow> Untyped)
     | _ \<Rightarrow> Raises TypeError)"

subsection \<open>Loading\<close>

text \<open>
  The content of a file as \<open>_load_notes\<close> sees it: the file is not there, or reading it
  raises (\<open>open\<close> fails or the text is not JSON), or \<open>json.load\<close> returns a value. The text
  written by \<open>json.dump\<close> is not modelled: that \<open>json.load\<close> gives back the value that
  \<open>json.dump\<close> wrote is the \<open>json\<close> module's contract.
\<close>

datatype file_content = Missing | Unreadable | Content json

text \<open>The loop of lines 68 to 70, over the elements of \<open>trigger_conditions\<close>.\<close>

fun load_conditions :: "json list \<Rightarrow> TriggerCondition list \<Rightarrow> TriggerCondition list outcome" where
  "load_conditions [] conditions = Returns conditions"
| "load_conditions (tc_data # rest) conditions =
     (case new_TriggerCondition tc_data of
        Returns tc \<Rightarrow> load_conditions rest (conditions @ [tc])
      | Raises e \<Rightarrow> Raises e
      | Untyped \<Rightarrow> Untyped)"

text \<open>The body of the loop over \<open>data\<close>; \<open>note_data.get\<close> needs a dictionary.\<close>

definition load_note :: "json \<Rightarrow> Note outcome" where
  "load_note note_data =
    (case note_data of
       JObj kw \<Rightarrow>
         and_then (iterate (kwarg kw ''trigger_conditions'' (JArr [])))
           (\<lambda>tc_datas. and_then (load_conditions tc_datas [])
              (\<lambda>conditions. new_Note conditions kw))
     | _ \<Rightarrow> Raises AttributeError)"

fun load_notes_loop :: "json list \<Rightarrow> (string, Note) dict \<Rightarrow> (string, Note) dict outcome" where
  "load_notes_loop [] loaded = Returns loaded"
| "load_notes_loop (note_data # rest) loaded =
     (case load_note note_data of
        Returns note \<Rightarrow> load_notes_loop rest (AList.update (uuid note) note loaded)
      | Raises e \<Rightarrow> Raises e
      | Untyped \<Rightarrow> Untyped)"

text \<open>
  \<open>_load_notes\<close>: any exception inside the \<open>try\<close> is printed and the method returns the empty
  dictionary, as it does when the file does not exist.
\<close>

definition load_notes :: "file_content \<Rightarrow> (string, Note) dict outcome" where
  "load_notes f =
    (case f of
       Missing \<Rightarrow> Returns []
     | Unreadable \<Rightarrow> Returns []
     | Content data \<Rightarrow>
         (case and_then (iterate data) (\<lambda>elements. load_notes_loop elements []) of
            Raises e \<Rightarrow> Returns []
          | Returns loaded \<Rightarrow> Returns loaded
          | Untyped \<Rightarrow> Untyped))"

fun load_folders_loop ::
  "json list \<Rightarrow> (string, Folder) dict \<Rightarrow> (string, Folder) dict outcome" where
  "load_folders_loop [] loaded = Returns loaded"
| "load_folders_loop (folder_data # rest) loaded =
     (case new_Folder folder_data of
        Returns folder \<Rightarrow> load_folders_loop rest (AList.update (Folder.uuid folder) folder loaded)
      | Raises e \<Rightarrow> Raises e
      | Untyped \<Rightarrow> Untyped)"

definition load_folders :: "file_content \<Rightarrow> (string, Folder) dict outcome" where
  "load_folders f =
    (case f of
       Missing \<Rightarrow> Returns []
     | Unreadable \<Rightarrow> Returns []
     | Content data \<Rightarrow>
         (case and_then (iterate data) (\<lambda>elements. load_folders_loop elements []) of
            Raises e \<Rightarrow> Returns []
          | Returns loaded \<Rightarrow> Returns loaded
          | Untyped \<Rightarrow> Untyped))"

subsection \<open>The manager\<close>

text \<open>
  An \<open>AutoNotesManager\<close> of one user: the two dictionaries, and the content of the two files
  its paths name. \<open>__init__\<close> loads both files.
\<close>

record AutoNotesManager =
  notes_file :: file_content
  folders_file :: file_content
  "notes" :: "(string, Note) dict"
  folders :: "(string, Folder) dict"

definition new_AutoNotesManager :: "file_content \<Rightarrow> file_content \<Rightarrow> AutoNotesManager outcome" where
  "new_AutoNotesManager nf ff =
     and_then (load_notes nf) (\<lambda>ns.
       and_then (load_folders ff) (\<lambda>fs.
         Returns \<lparr>notes_file = nf, folders_file = ff, notes = ns, folders = fs\<rparr>))"

text \<open>
  Whether a write goes through is up to the environment, so it is an argument: \<open>Written\<close>, or
  an exception inside the \<open>try\<close> of \<open>_save_notes\<close> (\<open>open\<close> or \<open>json.dump\<close> raising) that
  leaves the file in the given state. The \<open>except\<close> clause prints the exception and the
  method returns normally in both cases.
\<close>

datatype io = Written | IOError file_content

definition save_notes :: "io \<Rightarrow> AutoNotesManager \<Rightarrow> AutoNotesManager" where
  "save_notes w self =
    (case w of
       Written \<Rightarrow> self\<lparr>notes_file := Content (JArr (map asdict_Note (dict_values (notes self))))\<rparr>
     | IOError left \<Rightarrow> self\<lparr>notes_file := left\<rparr>)"

definition save_folders :: "io \<Rightarrow> AutoNotesManager \<Rightarrow> AutoNotesManager" where
  "save_folders w self =
    (case w of
       Written \<Rightarrow>
         self\<lparr>folders_file := Content (JArr (map asdict_Folder (dict_values (folders self))))\<rparr>
     | IOError left \<Rightarrow> self\<lparr>folders_file := left\<rparr>)"

text \<open>
  \<open>create_note\<close> and \<open>create_folder\<close>; the result of \<open>str(uuid.uuid4())\<close> is the argument
  \<open>note_uuid\<close> (\<open>folder_uuid\<close>). Each method returns its value and the manager it leaves.
\<close>

definition create_note ::
  "io \<Rightarrow> string \<Rightarrow> AutoNotesManager \<Rightarrow> string \<Rightarrow> string option \<Rightarrow> string \<times> AutoNotesManager" where
  "create_note w note_uuid self name' folder_uuid' =
    (let note = \<lparr>uuid = note_uuid, folder_uuid = folder_uuid', content = [],
                 format_style = ''plaintext'', trigger_conditions = [], pinned = False,
                 name = name', tags = []\<rparr>
     in (note_uuid, save_notes w (self\<lparr>notes := AList.update note_uuid note (notes self)\<rparr>)))"

definition create_folder ::
  "io \<Rightarrow> string \<Rightarrow> AutoNotesManager \<Rightarrow> string \<Rightarrow> string option \<Rightarrow> string \<times> AutoNotesManager" where
  "create_folder w folder_uuid' self name' parent_uuid' =
    (let folder = \<lparr>Folder.uuid = folder_uuid', parent_uuid = parent_uuid', Folder.name = name'\<rparr>
     in (folder_uuid',
         save_folders w (self\<lparr>folders := AList.update folder_uuid' folder (folders self)\<rparr>)))"

definition delete_note :: "io \<Rightarrow> AutoNotesManager \<Rightarrow> string \<Rightarrow> bool \<times> AutoNotesManager" where
  "delete_note w self note_uuid =
    (if note_uuid \<in> fst ` set (notes self)
     then (True, save_notes w (self\<lparr>notes := AList.delete note_uuid (notes self)\<rparr>))
     else (False, self))"

subsection \<open>\<open>update_note\<close>\<close>

text \<open>
  A keyword argument of \<open>update_note\<close> is a JSON value of the request, or the list of
  \<open>TriggerCondition\<close> objects the route builds for the key \<open>trigger_conditions\<close>.
\<close>

datatype arg = Data json | Conditions "TriggerCondition list"

text \<open>
  \<open>hasattr(note, key)\<close> holds for the eight fields. A \<open>Note\<close> object has further attributes,
  inherited from \<open>object\<close> and added by \<open>dataclass\<close>; all of them have names of the form
  \<open>__x__\<close>, and which ones exist depends on the interpreter, but \<open>__class__\<close> exists on
  every object. So a key that is no field and not of that form names no attribute.
\<close>

definition dunder :: "string \<Rightarrow> bool" where
  "dunder key = (prefix ''__'' key \<and> suffix ''__'' key)"

text \<open>
  \<open>setattr(note, key, value)\<close> for a key that \<open>hasattr\<close> accepts. A field takes the value;
  assigning \<open>__class__\<close> anything but a class raises \<open>TypeError\<close>, and no keyword argument
  here is a class. Assignments to the other special attributes are not modelled.
\<close>

definition setattr_Note :: "Note \<Rightarrow> string \<Rightarrow> arg \<Rightarrow> Note outcome" where
  "setattr_Note note key value =
    (if key = ''uuid'' then
       (case value of Data (JStr s) \<Rightarrow> Returns (note\<lparr>uuid := s\<rparr>) | _ \<Rightarrow> Untyped)
     else if key = ''folder_uuid'' then
       (case value of
          Data JNull \<Rightarrow> Returns (note\<lparr>folder_uuid := None\<rparr>)
        | Data (JStr s) \<Rightarrow> Returns (note\<lparr>folder_uuid := Some s\<rparr>)
        | _ \<Rightarrow> Untyped)
     else if key = ''content'' then
       (case value of Data (JStr s) \<Rightarrow> Returns (note\<lparr>content := s\<rparr>) | _ \<Rightarrow> Untyped)
     else if key = ''format_style'' then
       (case value of Data (JStr s) \<Rightarrow> Returns (note\<lparr>format_style := s\<rparr>) | _ \<Rightarrow> Untyped)
     else if key = ''trigger_conditions'' then
       (case value of
          Conditions tcs \<Rightarrow> Returns (note\<lparr>trigger_conditions := tcs\<rparr>)
        | _ \<Rightarrow> Untyped)
     else if key = ''pinned'' then
       (case value of Data (JBool b) \<Rightarrow> Returns (note\<lparr>pinned := b\<rparr>) | _ \<Rightarrow> Untyped)
     else if key = ''name'' then
       (case value of Data (JStr s) \<Rightarrow> Returns (note\<lparr>name := s\<rparr>) | _ \<Rightarrow> Untyped)
     else if key = ''tags'' then
       (case value of
          Data v \<Rightarrow>
            (case strs_of_json v of Some xs \<Rightarrow> Returns (note\<lparr>tags := xs\<rparr>) | None \<Rightarrow> Untyped)
        | _ \<Rightarrow> Untyped)
     else if key = ''__class__'' then Raises TypeError
     else Untyped)"

text \<open>The loop over \<open>kwargs.items()\<close>.\<close>

fun update_loop :: "(string \<times> arg) list \<Rightarrow> Note \<Rightarrow> Note outcome" where
  "update_loop [] note = Returns note"
| "update_loop ((key, value) # rest) note =
     (if key \<in> set Note_fields \<or> dunder key then
        (case setattr_Note note key value of
           Returns note' \<Rightarrow> update_loop rest note'
         | Raises e \<Rightarrow> Raises e
         | Untyped \<Rightarrow> Untyped)
      else update_loop rest note)"

text \<open>
  \<open>update_note\<close> mutates the note object held by the dictionary under \<open>note_uuid\<close>, so the
  entry keeps its key and its position. An exception of \<open>setattr\<close> leaves the method before
  \<open>_save_notes\<close>.
\<close>

definition update_note ::
  "io \<Rightarrow> AutoNotesManager \<Rightarrow> string \<Rightarrow> (string \<times> arg) list \<Rightarrow> (bool \<times> AutoNotesManager) outcome" where
  "update_note w self note_uuid kwargs =
    (case map_of (notes self) note_uuid of
       None \<Rightarrow> Returns (False, self)
     | Some note \<Rightarrow>
         (case update_loop kwargs note of
            Returns note' \<Rightarrow>
              Returns (True, save_notes w (self\<lparr>notes := AList.update note_uuid note' (notes self)\<rparr>))
          | Raises e \<Rightarrow> Raises e
          | Untyped \<Rightarrow> Untyped))"

subsection \<open>The route \<open>delete_folder\<close>\<close>

text \<open>
  A response of \<open>web.json_response\<close>: the status and the body. The route builds the manager
  of the request's user from the files, which is all that outlives the request; the result is
  the response and the manager as the request leaves it, files included. At the declared
  types nothing in the body raises, so the route's \<open>except\<close> clause (status 500) is not
  reached.
\<close>

datatype response = Response nat json

fun clear_folder :: "string \<Rightarrow> (string, Note) dict \<Rightarrow> (string, Note) dict" where
  "clear_folder folder_uuid' [] = []"
| "clear_folder folder_uuid' ((k, note) # rest) =
     (if folder_uuid note = Some folder_uuid'
      then (k, note\<lparr>folder_uuid := None\<rparr>) # clear_folder folder_uuid' rest
      else (k, note) # clear_folder folder_uuid' rest)"

definition delete_folder ::
  "io \<Rightarrow> io \<Rightarrow> file_content \<Rightarrow> file_content \<Rightarrow> string \<Rightarrow> (response \<times> AutoNotesManager) outcome" where
  "delete_folder w1 w2 nf ff folder_uuid' =
     and_then (new_AutoNotesManager nf ff) (\<lambda>manager.
       if folder_uuid' \<notin> fst ` set (folders manager) then
         Returns (Response 404
           (JObj [(''success'', JBool False), (''error'', JStr ''Folder not found'')]), manager)
       else
         (let manager1 = save_notes w1 (manager\<lparr>notes := clear_folder folder_uuid' (notes manager)\<rparr>);
              manager2 = save_folders w2
                (manager1\<lparr>folders := AList.delete folder_uuid' (folders manager1)\<rparr>)
          in Returns (Response 200 (JObj [(''success'', JBool True)]), manager2)))"

subsection \<open>Well-formed dictionaries and the update as the specification words it\<close>

text \<open>
  The manager files every record under its own identifier (\<open>notes[note.uuid] = note\<close>), and
  the keys of a dictionary are distinct: these two facts make a collection well formed.
\<close>

definition well_formed_notes :: "(string, Note) dict \<Rightarrow> bool" where
  "well_formed_notes d = (distinct (map fst d) \<and> list_all (\<lambda>(k, note). k = uuid note) d)"

definition well_formed_folders :: "(string, Folder) dict \<Rightarrow> bool" where
  "well_formed_folders d =
     (distinct (map fst d) \<and> list_all (\<lambda>(k, folder). k = Folder.uuid folder) d)"




subsection \<open>Example data\<close>

definition pinned_note :: Note where
  "pinned_note =
     \<lparr>uuid = ''n1'', folder_uuid = None, content = '''', format_style = ''plaintext'',
      trigger_conditions = [], pinned = True, name = ''always'', tags = []\<rparr>"

definition prod_condition :: TriggerCondition where
  "prod_condition =
     \<lparr>type = ''workflow_name'', node_types = None, node_type = None, attribute_name = None,
      attribute_values = None, workflow_names = Some [''prod'']\<rparr>"

definition pipeline_condition :: TriggerCondition where
  "pipeline_condition =
     \<lparr>type = ''workflow_name'', node_types = None, node_type = None, attribute_name = None,
      attribute_values = None, workflow_names = Some [''pipeline'', ''my'']\<rparr>"

definition prod_note :: Note where
  "prod_note =
     \<lparr>uuid = ''n2'', folder_uuid = Some ''f1'', content = ''check the seed'',
      format_style = ''markdown'', trigger_conditions = [prod_condition, pipeline_condition],
      pinned = False, name = ''prod'', tags = [''ops'']\<rparr>"

definition bare_note :: Note where
  "bare_note =
     \<lparr>uuid = ''n3'', folder_uuid = Some ''f1'', content = ''todo'', format_style = ''plaintext'',
      trigger_conditions = [], pinned = False, name = ''bare'', tags = []\<rparr>"

definition example_notes :: "(string, Note) dict" where
  "example_notes = [(''n1'', pinned_note), (''n2'', prod_note), (''n3'', bare_note)]"

definition example_folder :: Folder where
  "example_folder = \<lparr>Folder.uuid = ''f1'', parent_uuid = None, Folder.name = ''inbox''\<rparr>"

definition example_manager :: AutoNotesManager where
  "example_manager =
     \<lparr>notes_file = Content (JArr (map asdict_Note (dict_values example_notes))),
      folders_file = Content (JArr [asdict_Folder example_folder]),
      notes = example_notes,
      folders = [(''f1'', example_folder)]\<rparr>"


section \<open>Properties of the matcher\<close>

lemma conditions_loop_ex: "conditions_loop check cs = list_ex check cs"
  by (induction cs) auto

lemma notes_loop_filter:
  "notes_loop check ns acc =
     acc @ filter (\<lambda>n. pinned n \<or> list_ex check (trigger_conditions n)) ns"
  by (induction ns arbitrary: acc) (auto simp: conditions_loop_ex)

lemma subseq_count_list: "subseq xs ys \<Longrightarrow> count_list xs x \<le> count_list ys x"
  by (induction rule: list_emb.induct) auto

lemmas example_defs =
  pinned_note_def prod_condition_def pipeline_condition_def prod_note_def bare_note_def
  example_notes_def dict_values_def

lemma prod_matches:
  "check_trigger_condition (\<lambda>s::string. s) prod_condition None None
     (Some ''my-prod-pipeline'') None"
  by (simp add: check_trigger_condition_def prod_condition_def sublist_Cons_right)

subsection \<open>Selection\<close>

text \<open>
  C1. In automatic mode (any mode other than \<open>all\<close>) every stored note whose \<open>pinned\<close>
  flag is set is in the result of \<open>get_notes_for_display\<close>, whatever its trigger conditions
  (none at all included) and whatever the runtime context.
\<close>

theorem pinned_note_always_displayed:
  assumes "note \<in> set (dict_values ns)" and "pinned note" and "mode \<noteq> ''all''"
  shows "note \<in> set (get_notes_for_display str ns mode selected_node_type
           selected_node_attributes workflow_name workflow_nodes)"
  using assms by (simp add: get_notes_for_display_def notes_loop_filter)

theorem pinned_note_always_displayed_witness:
  "pinned_note \<in> set (dict_values example_notes) \<and> pinned pinned_note
   \<and> trigger_conditions pinned_note = [] \<and> ''automatic'' \<noteq> ''all''
   \<and> pinned_note \<in> set (get_notes_for_display (\<lambda>s::string. s) example_notes ''automatic''
        None None None None)"
proof -
  have h: "pinned_note \<in> set (dict_values example_notes)" "pinned pinned_note"
    "''automatic'' \<noteq> ''all''" "trigger_conditions pinned_note = []"
    by (simp_all add: example_defs)
  from pinned_note_always_displayed [OF h(1) h(2) h(3)] h show ?thesis by simp
qed

text \<open>
  C2. In automatic mode a stored note that is not pinned is in the result exactly when
  \<open>_check_trigger_condition\<close> holds for at least one condition of its list; in particular
  a note with an empty condition list that is not pinned is left out.
\<close>

theorem unpinned_note_displayed_iff_some_condition:
  assumes "note \<in> set (dict_values ns)" and "\<not> pinned note" and "mode \<noteq> ''all''"
  shows "(note \<in> set (get_notes_for_display str ns mode selected_node_type
              selected_node_attributes workflow_name workflow_nodes)
          \<longleftrightarrow> (\<exists>condition \<in> set (trigger_conditions note).
                 check_trigger_condition str condition selected_node_type
                   selected_node_attributes workflow_name workflow_nodes))
       \<and> (trigger_conditions note = [] \<longrightarrow>
            note \<notin> set (get_notes_for_display str ns mode selected_node_type
              selected_node_attributes workflow_name workflow_nodes))"
  using assms by (auto simp: get_notes_for_display_def notes_loop_filter list_ex_iff)

theorem unpinned_note_displayed_iff_some_condition_witness:
  "prod_note \<in> set (get_notes_for_display (\<lambda>s::string. s) example_notes ''automatic''
        None None (Some ''my-prod-pipeline'') None)
   \<and> bare_note \<notin> set (get_notes_for_display (\<lambda>s::string. s) example_notes ''automatic''
        None None (Some ''my-prod-pipeline'') None)"
proof -
  have m: "prod_note \<in> set (dict_values example_notes)" "\<not> pinned prod_note"
    and b: "bare_note \<in> set (dict_values example_notes)" "\<not> pinned bare_note"
      "trigger_conditions bare_note = []"
    and a: "''automatic'' \<noteq> ''all''"
    by (simp_all add: example_defs)
  have c: "\<exists>condition \<in> set (trigger_conditions prod_note).
      check_trigger_condition (\<lambda>s::string. s) condition None None
        (Some ''my-prod-pipeline'') None"
    using prod_matches by (simp add: prod_note_def)
  from unpinned_note_displayed_iff_some_condition [OF m a] c
    unpinned_note_displayed_iff_some_condition [OF b(1) b(2) a] b(3)
  show ?thesis by blast
qed

text \<open>
  C10. The result of \<open>get_notes_for_display\<close> is a subsequence of the stored notes in
  storage order (it is obtained from \<open>notes.values()\<close> by dropping entries), so a stored
  note is never returned more often than it is stored, even when several of its conditions
  match. This holds in automatic mode and in mode \<open>all\<close> alike.
\<close>

theorem display_is_subsequence_without_duplicates:
  "subseq (get_notes_for_display str ns mode selected_node_type
             selected_node_attributes workflow_name workflow_nodes) (dict_values ns)
   \<and> (\<forall>note. count_list (get_notes_for_display str ns mode selected_node_type
             selected_node_attributes workflow_name workflow_nodes) note
          \<le> count_list (dict_values ns) note)
   \<and> (distinct (dict_values ns) \<longrightarrow>
        distinct (get_notes_for_display str ns mode selected_node_type
             selected_node_attributes workflow_name workflow_nodes))"
proof -
  let ?r = "get_notes_for_display str ns mode selected_node_type
             selected_node_attributes workflow_name workflow_nodes"
  have s: "subseq ?r (dict_values ns)"
    by (simp add: get_notes_for_display_def notes_loop_filter)
  from s have "\<forall>note. count_list ?r note \<le> count_list (dict_values ns) note"
    by (simp add: subseq_count_list)
  moreover have "distinct (dict_values ns) \<longrightarrow> distinct ?r"
    by (simp add: get_notes_for_display_def notes_loop_filter)
  ultimately show ?thesis using s by blast
qed

text \<open>Both conditions of \<open>prod_note\<close> match the context below; the note is returned once.\<close>

theorem display_is_subsequence_without_duplicates_witness:
  "distinct (dict_values example_notes)
   \<and> list_all (\<lambda>c. check_trigger_condition (\<lambda>s::string. s) c None None
         (Some ''my-prod-pipeline'') None) (trigger_conditions prod_note)
   \<and> get_notes_for_display (\<lambda>s::string. s) example_notes ''automatic'' None None
         (Some ''my-prod-pipeline'') None = [pinned_note, prod_note]
   \<and> subseq (get_notes_for_display (\<lambda>s::string. s) example_notes ''automatic'' None None
         (Some ''my-prod-pipeline'') None) (dict_values example_notes)
   \<and> distinct (get_notes_for_display (\<lambda>s::string. s) example_notes ''automatic'' None None
         (Some ''my-prod-pipeline'') None)"
proof -
  have d: "distinct (dict_values example_notes)"
    by (simp add: example_defs)
  have c: "list_all (\<lambda>c. check_trigger_condition (\<lambda>s::string. s) c None None
         (Some ''my-prod-pipeline'') None) (trigger_conditions prod_note)"
    by (simp add: example_defs check_trigger_condition_def sublist_Cons_right)
  have r: "get_notes_for_display (\<lambda>s::string. s) example_notes ''automatic'' None None
         (Some ''my-prod-pipeline'') None = [pinned_note, prod_note]"
    by (simp add: example_defs get_notes_for_display_def check_trigger_condition_def
        sublist_Cons_right)
  from display_is_subsequence_without_duplicates [of "\<lambda>s::string. s" example_notes
      "''automatic''" None None "Some ''my-prod-pipeline''" None] d c r
  show ?thesis by blast
qed

subsection \<open>Evaluation of one condition\<close>



text \<open>
  C4. A \<open>node_in_workflow_attribute\<close> condition whose \<open>attribute_values\<close> is \<open>None\<close> or the
  empty list matches as soon as its node type is a key of \<open>workflow_nodes\<close> and that node's
  attribute dictionary has the key \<open>attribute_name\<close>: the attribute's value is not looked at.
\<close>

theorem attribute_presence_suffices_without_values:
  assumes "type c = ''node_in_workflow_attribute''"
    and "node_type c = Some nt" and "attribute_name c = Some an"
    and "attribute_values c = None \<or> attribute_values c = Some []"
    and "nodes nt = Some node_attrs" and "node_attrs an = Some v"
  shows "check_trigger_condition str c selected_node_type selected_node_attributes
           workflow_name (Some nodes)"
  using assms by (auto simp: check_trigger_condition_def)

theorem attribute_presence_suffices_without_values_witness:
  "check_trigger_condition (\<lambda>s::string. s)
     \<lparr>type = ''node_in_workflow_attribute'', node_types = None, node_type = Some ''KSampler'',
      attribute_name = Some ''steps'', attribute_values = Some [], workflow_names = None\<rparr>
     None None None (Some [''KSampler'' \<mapsto> [''steps'' \<mapsto> ''20'']])"
  using attribute_presence_suffices_without_values [of
     "\<lparr>type = ''node_in_workflow_attribute'', node_types = None, node_type = Some ''KSampler'',
      attribute_name = Some ''steps'', attribute_values = Some [], workflow_names = None\<rparr>"
     "''KSampler''" "''steps''" "[''KSampler'' \<mapsto> [''steps'' \<mapsto> ''20'']]"
     "[''steps'' \<mapsto> ''20'']" "''20''" "\<lambda>s::string. s" None None None]
  by simp

text \<open>
  C5. An absent field gives \<open>False\<close> in every branch but one. The \<open>node_selected\<close> branch
  tests \<open>selected_node_type is not None\<close> and the \<open>node_in_workflow_attribute\<close> branch tests
  \<open>condition.node_type is not None\<close>; the \<open>node_selected_attribute\<close> branch compares
  \<open>selected_node_type == condition.node_type\<close> with no such test, and \<open>None == None\<close>
  holds. A condition with no node type therefore matches a context with no selected node type
  when the attribute is there: the evaluation below returns \<open>True\<close>.
\<close>

theorem node_selected_attribute_matches_with_both_types_absent:
  "check_trigger_condition (\<lambda>s::string. s)
     \<lparr>type = ''node_selected_attribute'', node_types = None, node_type = None,
      attribute_name = Some ''res'', attribute_values = Some [''512''], workflow_names = None\<rparr>
     None (Some [''res'' \<mapsto> ''512x512'']) None None = True"
  by (simp add: check_trigger_condition_def sublist_Cons_right)

text \<open>Every other absence yields \<open>False\<close>.\<close>

lemma absent_field_no_match:
  "(type c = ''node_selected'' \<longrightarrow> (snt = None \<or> node_types c = None) \<longrightarrow>
      \<not> check_trigger_condition str c snt sna wn wns)
   \<and> (type c = ''node_selected_attribute'' \<longrightarrow>
        (sna = None \<or> attribute_name c = None \<or> attribute_values c = None
         \<or> (snt = None \<and> node_type c \<noteq> None) \<or> (snt \<noteq> None \<and> node_type c = None)) \<longrightarrow>
      \<not> check_trigger_condition str c snt sna wn wns)
   \<and> (type c = ''node_in_workflow'' \<longrightarrow> (wns = None \<or> node_types c = None) \<longrightarrow>
      \<not> check_trigger_condition str c snt sna wn wns)
   \<and> (type c = ''node_in_workflow_attribute'' \<longrightarrow>
        (wns = None \<or> node_type c = None \<or> attribute_name c = None) \<longrightarrow>
      \<not> check_trigger_condition str c snt sna wn wns)
   \<and> (type c = ''workflow_name'' \<longrightarrow> (wn = None \<or> workflow_names c = None) \<longrightarrow>
      \<not> check_trigger_condition str c snt sna wn wns)"
  by (auto simp: check_trigger_condition_def split: option.splits)

section \<open>Properties of the store\<close>

subsection \<open>Records survive \<open>asdict\<close> and the constructors\<close>

lemma those_str_of_json [simp]: "those (map (str_of_json \<circ> JStr) xs) = Some xs"
  by (induction xs) auto

lemma strs_roundtrip [simp]: "strs_of_json (json_of_strs xs) = Some xs"
  by (simp add: json_of_strs_def)

lemma opt_strs_strs_roundtrip [simp]: "opt_strs_of_json (json_of_strs xs) = Some (Some xs)"
  by (simp add: json_of_strs_def)

lemma opt_strs_roundtrip [simp]: "opt_strs_of_json (json_of_opt_strs x) = Some x"
  by (cases x) (simp_all add: json_of_opt_strs_def)

lemma opt_str_roundtrip [simp]: "opt_str_of_json (json_of_opt_str x) = Some x"
  by (cases x) (simp_all add: json_of_opt_str_def)

lemma new_TriggerCondition_asdict:
  "new_TriggerCondition (asdict_TriggerCondition tc) = Returns tc"
  by (simp add: new_TriggerCondition_def asdict_TriggerCondition_def TriggerCondition_fields_def
      kwarg_def)

lemma load_conditions_asdict:
  "load_conditions (map asdict_TriggerCondition tcs) acc = Returns (acc @ tcs)"
  by (induction tcs arbitrary: acc) (simp_all add: new_TriggerCondition_asdict)

lemma load_note_asdict: "load_note (asdict_Note note) = Returns note"
  by (simp add: load_note_def asdict_Note_def kwarg_def load_conditions_asdict new_Note_def
      Note_fields_def)

lemma new_Folder_asdict: "new_Folder (asdict_Folder folder) = Returns folder"
  by (simp add: new_Folder_def asdict_Folder_def Folder_fields_def kwarg_def)

lemma load_notes_loop_asdict:
  "load_notes_loop (map asdict_Note ns) acc =
     Returns (fold (\<lambda>note. AList.update (uuid note) note) ns acc)"
  by (induction ns arbitrary: acc) (simp_all add: load_note_asdict)

lemma load_folders_loop_asdict:
  "load_folders_loop (map asdict_Folder fs) acc =
     Returns (fold (\<lambda>folder. AList.update (Folder.uuid folder) folder) fs acc)"
  by (induction fs arbitrary: acc) (simp_all add: new_Folder_asdict)

lemma update_fresh: "k \<notin> fst ` set al \<Longrightarrow> AList.update k v al = al @ [(k, v)]"
  by (induction al) auto

lemma fold_update_rebuilds:
  "distinct (map fst (acc @ d)) \<Longrightarrow> list_all (\<lambda>(k, v). k = key v) d \<Longrightarrow>
     fold (\<lambda>v. AList.update (key v) v) (map snd d) acc = acc @ d"
proof (induction d arbitrary: acc)
  case Nil
  then show ?case by simp
next
  case (Cons e d)
  obtain k v where e: "e = (k, v)" by (cases e)
  with Cons.prems have kv: "k = key v" and fresh: "k \<notin> fst ` set acc"
    and rest: "list_all (\<lambda>(k, v). k = key v) d"
    and dist: "distinct (map fst ((acc @ [(k, v)]) @ d))"
    by auto
  have "fold (\<lambda>v. AList.update (key v) v) (map snd (e # d)) acc =
        fold (\<lambda>v. AList.update (key v) v) (map snd d) (acc @ [(k, v)])"
    using e kv fresh by (simp add: update_fresh)
  also have "\<dots> = (acc @ [(k, v)]) @ d"
    using Cons.IH [OF dist rest] .
  finally show ?case using e by simp
qed

lemma load_save_notes:
  "well_formed_notes d \<Longrightarrow>
     load_notes (Content (JArr (map asdict_Note (dict_values d)))) = Returns d"
proof -
  assume "well_formed_notes d"
  then have "fold (\<lambda>note. AList.update (uuid note) note) (map snd d) [] = d"
    using fold_update_rebuilds [of "[]" d uuid] by (simp add: well_formed_notes_def)
  with load_notes_loop_asdict [of "map snd d" "[]"]
  have "load_notes_loop (map asdict_Note (map snd d)) [] = Returns d"
    by (simp only:)
  then show ?thesis
    by (simp add: load_notes_def dict_values_def del: map_map)
qed

lemma load_save_folders:
  "well_formed_folders d \<Longrightarrow>
     load_folders (Content (JArr (map asdict_Folder (dict_values d)))) = Returns d"
proof -
  assume "well_formed_folders d"
  then have "fold (\<lambda>folder. AList.update (Folder.uuid folder) folder) (map snd d) [] = d"
    using fold_update_rebuilds [of "[]" d Folder.uuid] by (simp add: well_formed_folders_def)
  with load_folders_loop_asdict [of "map snd d" "[]"]
  have "load_folders_loop (map asdict_Folder (map snd d)) [] = Returns d"
    by (simp only:)
  then show ?thesis
    by (simp add: load_folders_def dict_values_def del: map_map)
qed

subsection \<open>Invariants and auxiliary facts\<close>

lemma list_all_update:
  "list_all P al \<Longrightarrow> P (k, v) \<Longrightarrow> list_all P (AList.update k v al)"
  by (induction al) auto

lemma well_formed_notes_update:
  "well_formed_notes d \<Longrightarrow> well_formed_notes (AList.update (uuid note) note d)"
  by (simp add: well_formed_notes_def distinct_update list_all_update)

lemma well_formed_folders_update:
  "well_formed_folders d \<Longrightarrow> well_formed_folders (AList.update (Folder.uuid folder) folder d)"
  by (simp add: well_formed_folders_def distinct_update list_all_update)

lemma load_notes_loop_well_formed:
  "load_notes_loop xs acc = Returns d \<Longrightarrow> well_formed_notes acc \<Longrightarrow> well_formed_notes d"
  by (induction xs arbitrary: acc)
    (auto split: outcome.splits simp: well_formed_notes_update)

lemma load_folders_loop_well_formed:
  "load_folders_loop xs acc = Returns d \<Longrightarrow> well_formed_folders acc \<Longrightarrow> well_formed_folders d"
  by (induction xs arbitrary: acc)
    (auto split: outcome.splits simp: well_formed_folders_update)

lemma and_then_Returns:
  "and_then r f = Returns y \<longleftrightarrow> (\<exists>x. r = Returns x \<and> f x = Returns y)"
  by (cases r) auto

lemma load_notes_well_formed: "load_notes f = Returns d \<Longrightarrow> well_formed_notes d"
  by (auto simp: load_notes_def and_then_Returns well_formed_notes_def
      split: file_content.splits outcome.splits dest: load_notes_loop_well_formed)

lemma load_folders_well_formed: "load_folders f = Returns d \<Longrightarrow> well_formed_folders d"
  by (auto simp: load_folders_def and_then_Returns well_formed_folders_def
      split: file_content.splits outcome.splits dest: load_folders_loop_well_formed)

lemma new_AutoNotesManager_Returns:
  "new_AutoNotesManager nf ff = Returns manager \<longleftrightarrow>
     (\<exists>ns fs. load_notes nf = Returns ns \<and> load_folders ff = Returns fs
        \<and> manager = \<lparr>notes_file = nf, folders_file = ff, notes = ns, folders = fs\<rparr>)"
  by (auto simp: new_AutoNotesManager_def and_then_Returns)

lemma clear_folder_map:
  "clear_folder fid d =
     map (\<lambda>(k, note). (k, if folder_uuid note = Some fid then note\<lparr>folder_uuid := None\<rparr> else note)) d"
  by (induction fid d rule: clear_folder.induct) auto

lemma clear_folder_keys: "map fst (clear_folder fid d) = map fst d"
  by (induction fid d rule: clear_folder.induct) auto

lemma clear_folder_well_formed:
  "well_formed_notes d \<Longrightarrow> well_formed_notes (clear_folder fid d)"
  unfolding well_formed_notes_def clear_folder_keys
  by (induction fid d rule: clear_folder.induct) auto

lemma clear_folder_no_reference:
  "list_all (\<lambda>note. folder_uuid note \<noteq> Some fid) (dict_values (clear_folder fid d))"
  unfolding dict_values_def
  by (induction fid d rule: clear_folder.induct) auto

lemma list_all_delete: "list_all P al \<Longrightarrow> list_all P (AList.delete k al)"
  by (induction al) auto

lemma delete_well_formed:
  "well_formed_folders d \<Longrightarrow> well_formed_folders (AList.delete k d)"
  by (simp add: well_formed_folders_def distinct_delete list_all_delete)

lemma delete_no_key: "k \<notin> fst ` set (AList.delete k d)"
  by (induction d) auto

lemma example_well_formed:
  "well_formed_notes (notes example_manager)" "well_formed_folders (folders example_manager)"
  by (simp_all add: example_manager_def example_defs example_folder_def well_formed_notes_def
      well_formed_folders_def)



















lemma create_note_failed_write:
  "fst (create_note (IOError left) note_uuid self nm fu) = note_uuid
   \<and> snd (create_note (IOError left) note_uuid self nm fu)
       = (snd (create_note Written note_uuid self nm fu))\<lparr>notes_file := left\<rparr>"
  by (simp add: create_note_def save_notes_def Let_def)

lemma create_folder_failed_write:
  "fst (create_folder (IOError left) fid self nm pu) = fid
   \<and> snd (create_folder (IOError left) fid self nm pu)
       = (snd (create_folder Written fid self nm pu))\<lparr>folders_file := left\<rparr>"
  by (simp add: create_folder_def save_folders_def Let_def)

lemma delete_note_failed_write:
  "delete_note (IOError left) self note_uuid
       = (fst (delete_note Written self note_uuid),
          if fst (delete_note Written self note_uuid)
          then (snd (delete_note Written self note_uuid))\<lparr>notes_file := left\<rparr> else self)"
  by (simp add: delete_note_def save_notes_def)

lemma update_note_failed_write:
  "update_note Written self note_uuid kwargs = Returns (ok, after) \<Longrightarrow>
        update_note (IOError left) self note_uuid kwargs
          = Returns (ok, if ok then after\<lparr>notes_file := left\<rparr> else after)"
  by (auto simp: update_note_def save_notes_def split: option.splits outcome.splits)

lemma delete_folder_failed_write:
  "delete_folder Written Written nf ff fid = Returns (Response status body, after') \<Longrightarrow>
        delete_folder (IOError left) (IOError left') nf ff fid
          = Returns (Response status body,
              if status = 200 then after'\<lparr>notes_file := left, folders_file := left'\<rparr>
              else after')"
  by (cases "new_AutoNotesManager nf ff")
    (auto simp: delete_folder_def save_notes_def save_folders_def Let_def split: if_splits)

lemma example_manager_loads:
  "new_AutoNotesManager (notes_file example_manager) (folders_file example_manager)
     = Returns example_manager"
proof -
  have n: "load_notes (notes_file example_manager) = Returns (notes example_manager)"
    using load_save_notes [OF example_well_formed(1)] by (simp add: example_manager_def)
  have "folders_file example_manager
      = Content (JArr (map asdict_Folder (dict_values (folders example_manager))))"
    by (simp add: example_manager_def dict_values_def)
  with load_save_folders [OF example_well_formed(2)]
  have f: "load_folders (folders_file example_manager) = Returns (folders example_manager)"
    by simp
  show ?thesis
    by (simp add: new_AutoNotesManager_def n f)
qed

text \<open>
  Loading files every note under its own \<open>uuid\<close>, so a dictionary whose key differs from
  the note's \<open>uuid\<close> (as \<open>update_note\<close> can leave one, by assigning the field \<open>uuid\<close>) does
  not come back as it was saved.
\<close>

lemma load_after_save_rekeys:
  "load_notes (notes_file (save_notes Written
      \<lparr>notes_file = Missing, folders_file = Missing, notes = [(''k'', pinned_note)],
       folders = []\<rparr>))
   = Returns [(''n1'', pinned_note)]"
  by (simp add: save_notes_def dict_values_def load_notes_def load_note_asdict pinned_note_def)

subsection \<open>Claims about the store\<close>

text \<open>
  C6. The route \<open>delete_folder\<close>, on stored files that load at the declared types and with
  both writes going through. When the folder exists, the request answers success; the notes
  file then loads to the former notes with \<open>folder_uuid\<close> set to \<open>None\<close> on exactly the notes
  that referred to the folder, so no note refers to it any more, and the folders file loads
  to the former folders without it. The notes are written first: whatever becomes of the
  second write, the notes file already holds the cleared notes. When the folder is unknown
  the request answers 404 and neither file changes, whatever the environment.
\<close>

theorem delete_folder_clears_references_then_removes:
  assumes "new_AutoNotesManager nf ff = Returns manager"
  shows "(fid \<in> fst ` set (folders manager) \<longrightarrow>
          (\<exists>after. delete_folder Written Written nf ff fid =
                     Returns (Response 200 (JObj [(''success'', JBool True)]), after)
             \<and> load_notes (notes_file after) = Returns (clear_folder fid (notes manager))
             \<and> clear_folder fid (notes manager) =
                 map (\<lambda>(k, note).
                   (k, if folder_uuid note = Some fid then note\<lparr>folder_uuid := None\<rparr> else note))
                   (notes manager)
             \<and> (\<forall>note \<in> set (dict_values (clear_folder fid (notes manager))).
                   folder_uuid note \<noteq> Some fid)
             \<and> load_folders (folders_file after) = Returns (AList.delete fid (folders manager))
             \<and> fid \<notin> fst ` set (AList.delete fid (folders manager)))
          \<and> (\<exists>after. delete_folder Written w2 nf ff fid =
                     Returns (Response 200 (JObj [(''success'', JBool True)]), after)
             \<and> load_notes (notes_file after) = Returns (clear_folder fid (notes manager))))
       \<and> (fid \<notin> fst ` set (folders manager) \<longrightarrow>
           delete_folder w1 w2 nf ff fid =
             Returns (Response 404
               (JObj [(''success'', JBool False), (''error'', JStr ''Folder not found'')]), manager)
           \<and> notes_file manager = nf \<and> folders_file manager = ff)"
proof -
  from assms obtain ns fs where ns: "load_notes nf = Returns ns"
    and fs: "load_folders ff = Returns fs"
    and m: "manager = \<lparr>notes_file = nf, folders_file = ff, notes = ns, folders = fs\<rparr>"
    by (auto simp: new_AutoNotesManager_Returns)
  have wn: "well_formed_notes (clear_folder fid ns)"
    using ns by (simp add: load_notes_well_formed clear_folder_well_formed)
  have wf: "well_formed_folders (AList.delete fid fs)"
    using fs by (simp add: load_folders_well_formed delete_well_formed)
  have noref: "\<forall>note \<in> set (dict_values (clear_folder fid ns)). folder_uuid note \<noteq> Some fid"
    using clear_folder_no_reference [of fid ns] by (simp add: list_all_iff)
  have missing: "fid \<notin> fst ` set fs \<Longrightarrow>
      delete_folder w1 w2 nf ff fid =
        Returns (Response 404
          (JObj [(''success'', JBool False), (''error'', JStr ''Folder not found'')]), manager)"
    using assms m by (simp add: delete_folder_def)
  have found: "fid \<in> fst ` set fs \<Longrightarrow>
      delete_folder Written w nf ff fid =
        Returns (Response 200 (JObj [(''success'', JBool True)]),
          save_folders w ((save_notes Written (manager\<lparr>notes := clear_folder fid ns\<rparr>))
            \<lparr>folders := AList.delete fid fs\<rparr>))" for w
    using assms m by (simp add: delete_folder_def Let_def save_notes_def)
  have n_after: "load_notes (notes_file
        (save_folders w ((save_notes Written (manager\<lparr>notes := clear_folder fid ns\<rparr>))
            \<lparr>folders := AList.delete fid fs\<rparr>))) = Returns (clear_folder fid ns)" for w
    using load_save_notes [OF wn]
    by (cases w) (simp_all add: save_folders_def save_notes_def)
  have f_after: "load_folders (folders_file
        (save_folders Written ((save_notes Written (manager\<lparr>notes := clear_folder fid ns\<rparr>))
            \<lparr>folders := AList.delete fid fs\<rparr>))) = Returns (AList.delete fid fs)"
    using load_save_folders [OF wf]
    by (simp add: save_folders_def save_notes_def)
  show ?thesis
    using missing found n_after f_after noref m
    by (simp add: clear_folder_map [symmetric] delete_no_key)
qed

text \<open>Deleting folder \<open>f1\<close>, to which two of the three example notes refer, and an unknown one.\<close>

theorem delete_folder_clears_references_then_removes_witness:
  "''f1'' \<in> fst ` set (folders example_manager)
   \<and> (\<exists>after. delete_folder Written Written (notes_file example_manager)
          (folders_file example_manager) ''f1''
        = Returns (Response 200 (JObj [(''success'', JBool True)]), after)
      \<and> load_notes (notes_file after)
          = Returns [(''n1'', pinned_note), (''n2'', prod_note\<lparr>folder_uuid := None\<rparr>),
               (''n3'', bare_note\<lparr>folder_uuid := None\<rparr>)]
      \<and> load_folders (folders_file after) = Returns [])
   \<and> ''f2'' \<notin> fst ` set (folders example_manager)
   \<and> delete_folder Written Written (notes_file example_manager)
          (folders_file example_manager) ''f2''
        = Returns (Response 404
            (JObj [(''success'', JBool False), (''error'', JStr ''Folder not found'')]),
            example_manager)"
proof -
  have k: "''f1'' \<in> fst ` set (folders example_manager)"
    "''f2'' \<notin> fst ` set (folders example_manager)"
    by (simp_all add: example_manager_def)
  have c: "clear_folder ''f1'' (notes example_manager)
      = [(''n1'', pinned_note), (''n2'', prod_note\<lparr>folder_uuid := None\<rparr>),
         (''n3'', bare_note\<lparr>folder_uuid := None\<rparr>)]"
    by (simp add: example_manager_def example_defs)
  have d: "AList.delete ''f1'' (folders example_manager) = []"
    by (simp add: example_manager_def)
  from delete_folder_clears_references_then_removes [OF example_manager_loads,
      where fid = "''f1''" and ?w1.0 = Written and ?w2.0 = Written] k(1)
  have "\<exists>after. delete_folder Written Written (notes_file example_manager)
          (folders_file example_manager) ''f1''
        = Returns (Response 200 (JObj [(''success'', JBool True)]), after)
      \<and> load_notes (notes_file after) = Returns (clear_folder ''f1'' (notes example_manager))
      \<and> load_folders (folders_file after)
          = Returns (AList.delete ''f1'' (folders example_manager))"
    by blast
  moreover from delete_folder_clears_references_then_removes [OF example_manager_loads,
      where fid = "''f2''" and ?w1.0 = Written and ?w2.0 = Written] k(2)
  have "delete_folder Written Written (notes_file example_manager)
          (folders_file example_manager) ''f2''
        = Returns (Response 404
            (JObj [(''success'', JBool False), (''error'', JStr ''Folder not found'')]),
            example_manager)"
    by blast
  ultimately show ?thesis using k c d by simp
qed

text \<open>
  C7. For well-formed collections (distinct keys, each record filed under its own
  \<open>uuid\<close>), \<open>_save_notes\<close> and \<open>_save_folders\<close> followed by loading give back the same
  dictionaries, record for record, field for field, condition for condition and in the same
  order; a manager built from the saved files is the manager that saved them.
\<close>

theorem save_then_load_is_identity:
  assumes "well_formed_notes (notes self)" and "well_formed_folders (folders self)"
  shows "load_notes (notes_file (save_notes Written self)) = Returns (notes self)
       \<and> load_folders (folders_file (save_folders Written self)) = Returns (folders self)
       \<and> new_AutoNotesManager (notes_file (save_notes Written self))
            (folders_file (save_folders Written self))
          = Returns (save_folders Written (save_notes Written self))"
  using load_save_notes [OF assms(1)] load_save_folders [OF assms(2)]
  by (simp add: save_notes_def save_folders_def new_AutoNotesManager_def)

text \<open>The example manager, with three notes and one folder.\<close>

theorem save_then_load_is_identity_witness:
  "well_formed_notes (notes example_manager) \<and> well_formed_folders (folders example_manager)
   \<and> load_notes (notes_file (save_notes Written example_manager)) = Returns example_notes
   \<and> load_folders (folders_file (save_folders Written example_manager))
       = Returns [(''f1'', example_folder)]"
  using save_then_load_is_identity [OF example_well_formed] example_well_formed
  by (simp add: example_manager_def)




text \<open>
  C9, amended. A write that fails inside \<open>_save_notes\<close> or \<open>_save_folders\<close> is caught there
  and is not surfaced. \<open>create_note\<close> and \<open>create_folder\<close> return the new identifier,
  \<open>update_note\<close> and \<open>delete_note\<close> return the same flag, and the route \<open>delete_folder\<close>
  gives the same response as when the write goes through; the dictionaries in memory are the
  same too, and only the file differs, left as the failed write left it.
\<close>

theorem write_failure_is_not_surfaced:
  "fst (create_note (IOError left) note_uuid self nm fu) = note_uuid
   \<and> snd (create_note (IOError left) note_uuid self nm fu)
       = (snd (create_note Written note_uuid self nm fu))\<lparr>notes_file := left\<rparr>
   \<and> (update_note Written self note_uuid kwargs = Returns (ok, after) \<longrightarrow>
        update_note (IOError left) self note_uuid kwargs
          = Returns (ok, if ok then after\<lparr>notes_file := left\<rparr> else after))
   \<and> delete_note (IOError left) self note_uuid
       = (fst (delete_note Written self note_uuid),
          if fst (delete_note Written self note_uuid)
          then (snd (delete_note Written self note_uuid))\<lparr>notes_file := left\<rparr> else self)
   \<and> fst (create_folder (IOError left) fid self nm pu) = fid
   \<and> snd (create_folder (IOError left) fid self nm pu)
       = (snd (create_folder Written fid self nm pu))\<lparr>folders_file := left\<rparr>
   \<and> (delete_folder Written Written nf ff fid = Returns (Response status body, after') \<longrightarrow>
        delete_folder (IOError left) (IOError left') nf ff fid
          = Returns (Response status body,
              if status = 200 then after'\<lparr>notes_file := left, folders_file := left'\<rparr>
              else after'))"
  using create_note_failed_write [of left note_uuid self nm fu]
    create_folder_failed_write [of left fid self nm pu]
    delete_note_failed_write [of left self note_uuid]
    update_note_failed_write [of self note_uuid kwargs ok after left]
    delete_folder_failed_write [of nf ff fid status body after' left left']
  by blast

text \<open>Deleting and updating the example note \<open>n1\<close> with a write that fails.\<close>

theorem write_failure_is_not_surfaced_witness:
  "delete_note Written example_manager ''n1''
     = (True, save_notes Written (example_manager\<lparr>notes := [(''n2'', prod_note), (''n3'', bare_note)]\<rparr>))
   \<and> delete_note (IOError Unreadable) example_manager ''n1''
     = (True, example_manager\<lparr>notes := [(''n2'', prod_note), (''n3'', bare_note)],
          notes_file := Unreadable\<rparr>)
   \<and> update_note Written example_manager ''n1'' [] = Returns (True, save_notes Written example_manager)
   \<and> update_note (IOError Unreadable) example_manager ''n1'' []
     = Returns (True, example_manager\<lparr>notes_file := Unreadable\<rparr>)"
proof -
  have d: "delete_note Written example_manager ''n1''
     = (True, save_notes Written (example_manager\<lparr>notes := [(''n2'', prod_note), (''n3'', bare_note)]\<rparr>))"
    by (simp add: delete_note_def example_manager_def example_notes_def)
  have u: "update_note Written example_manager ''n1'' []
     = Returns (True, save_notes Written example_manager)"
    by (simp add: update_note_def example_manager_def example_notes_def)
  from write_failure_is_not_surfaced [where left = Unreadable and self = example_manager
      and note_uuid = "''n1''" and kwargs = "[]" and ok = True
      and after = "save_notes Written example_manager"] d u
  show ?thesis
    by (simp add: save_notes_def)
qed

text \<open>
  C9 as stated fails: with the write failing and the notes file still missing,
  \<open>update_note\<close> returns \<open>True\<close>, and a later load finds no note.
\<close>

theorem update_note_succeeds_when_write_fails:
  "update_note (IOError Missing) (example_manager\<lparr>notes_file := Missing\<rparr>) ''n3''
       [(''content'', Data (JStr ''done''))]
     = Returns (True,
         example_manager\<lparr>notes_file := Missing,
           notes := [(''n1'', pinned_note), (''n2'', prod_note),
                     (''n3'', bare_note\<lparr>content := ''done''\<rparr>)]\<rparr>)
   \<and> load_notes Missing = Returns []"
  by (simp add: update_note_def save_notes_def load_notes_def example_manager_def
      example_notes_def Note_fields_def setattr_Note_def)

end
